theory Spec2Isabelle
  imports Main
begin

section \<open>Gateway session supervisor: shared vocabulary\<close>

text \<open>
  The development embeds the two Go files of package \<open>broker\<close>: the broker manager
  (\<open>Manager\<close>, with \<open>readExchangeEvent\<close>, \<open>ProcessExchangeEvents\<close>, \<open>Close\<close>,
  \<open>DoGatewayRPC\<close>) and the gateway session (\<open>GatewayChannel\<close>, with
  \<open>NewGatewayChannel\<close>, \<open>PrintMessage\<close>, \<open>Start\<close>, \<open>CreateLogic\<close>,
  \<open>CheckGatewayExistence\<close>, \<open>Stop\<close>, \<open>Close\<close>).

  A Go \<open>error\<close> is its message text; \<open>nil\<close> is \<open>None\<close>. \<open>errors.Wrap err msg\<close>
  prefixes the message.
\<close>

type_synonym error = string

definition Wrap :: "error \<Rightarrow> string \<Rightarrow> error" where
  "Wrap err msg = msg @ '': '' @ err"

text \<open>
  \<open>entities.IotMessage\<close> is declared outside the two files. The code reads
  \<open>GatewayId\<close> and reads and writes \<open>Preview\<close> (a string); \<open>Rest\<close> stands for every
  other field, which the code never touches.
\<close>

record IotMessage =
  GatewayId :: string
  Preview :: string
  Rest :: string

text \<open>The value \<open>logic.NewGatewayLogic ctx conn gatewayId\<close> returns, opaque but for its identifier.\<close>

datatype Logic = GatewayLogic string

text \<open>
  Everything the code does to the outside world is recorded, in order, in a history of
  effects: logger calls, and calls of collaborators that are not part of the two files
  (the AMQP reader and writer, the database, the business logic, the status task, the
  AMQP channel and connection). The string argument is the gateway identifier of the
  session that makes the call.
\<close>

datatype effect =
    LogError string
  | LogWarn string
  | LogDebug string
  | LogMessage IotMessage string
  | AmqpReader string
  | AmqpWriter string
  | PumpStarted string
  | CtxCancel string
  | OutRead string
  | OutClose string
  | InClose string
  | UpdateGatewayStatus string string
  | DbQuery string
  | LoadParams string
  | BlProcess string IotMessage
  | SessionRPC string IotMessage
  | QueueDelete string
  | ChClose
  | ConnClose

type_synonym history = "effect list"

text \<open>
  The collaborators' answers are parameters: each is a function of the history so far, so
  that two calls of the same collaborator may answer differently. \<open>amqpReaderOk\<close> and
  \<open>amqpWriterOk\<close> say whether \<open>NewAmqpReader\<close> and \<open>NewAmqpWriter\<close> return a non-nil
  value; \<open>unmarshal\<close> is \<open>json.Unmarshal\<close> into an \<open>IotMessage\<close>; \<open>gatewayCount\<close> is the
  row count scanned by \<open>CheckGatewayExistence\<close>; \<open>sessionRPC\<close> is \<open>GatewayChannel.DoRPC\<close>,
  which is not in the two files.
\<close>

record env =
  amqpReaderOk :: "string \<Rightarrow> history \<Rightarrow> bool"
  amqpWriterOk :: "string \<Rightarrow> history \<Rightarrow> bool"
  outClose :: "string \<Rightarrow> history \<Rightarrow> error option"
  inClose :: "string \<Rightarrow> history \<Rightarrow> error option"
  unmarshal :: "string \<Rightarrow> error + IotMessage"
  gatewayCount :: "string \<Rightarrow> history \<Rightarrow> error + int"
  loadParams :: "string \<Rightarrow> history \<Rightarrow> error option"
  blProcess :: "string \<Rightarrow> IotMessage \<Rightarrow> history \<Rightarrow> error option"
  sessionRPC :: "string \<Rightarrow> IotMessage \<Rightarrow> history \<Rightarrow> error + IotMessage"
  queueDelete :: "string \<Rightarrow> history \<Rightarrow> error option"
  chClose :: "history \<Rightarrow> error option"
  connClose :: "history \<Rightarrow> error option"

text \<open>
  The outcome of one execution of the body of a Go \<open>for\<close> loop: go on with the next
  iteration, leave the loop, or panic. \<open>loop\<close> runs a body over the inputs that have
  arrived so far; \<open>Continue\<close> as its result means the loop is still running and waits for
  its next input.
\<close>

datatype 's ctl = Continue 's | Break 's | Panic 's

fun loop :: "('i \<Rightarrow> 's \<Rightarrow> 's ctl) \<Rightarrow> 'i list \<Rightarrow> 's \<Rightarrow> 's ctl" where
  "loop body [] s = Continue s"
| "loop body (i # is) s =
     (case body i s of
        Continue s' \<Rightarrow> loop body is s'
      | Break s' \<Rightarrow> Break s'
      | Panic s' \<Rightarrow> Panic s')"

section \<open>The gateway session (gatewaychannel.go)\<close>

text \<open>
  The fields of \<open>GatewayChannel\<close> that the code reads or writes. \<open>cancelled\<close> is the state
  of \<open>ctx\<close> (true once \<open>cancel\<close> has been called); \<open>bl\<close> is the business logic, \<open>None\<close>
  for the nil interface. \<open>conn\<close>, \<open>out\<close> and \<open>in\<close> are handles of collaborators whose
  answers come from \<open>env\<close>; \<open>NewGatewayChannel\<close> never leaves them nil.
\<close>

record GatewayChannel =
  serverId :: string
  gatewayId :: string
  cancelled :: bool
  bl :: "Logic option"

definition NewGatewayChannel ::
  "env \<Rightarrow> string \<Rightarrow> string \<Rightarrow> history \<Rightarrow> GatewayChannel option \<times> history" where
  "NewGatewayChannel e sid gid h =
     (let h1 = h @ [AmqpReader gid] in
      if \<not> amqpReaderOk e gid h then (None, h1)
      else
        let h2 = h1 @ [AmqpWriter gid] in
        if \<not> amqpWriterOk e gid h1 then (None, h2)
        else (Some \<lparr>serverId = sid, gatewayId = gid, cancelled = False, bl = None\<rparr>, h2))"

text \<open>\<open>Stop\<close>: cancel, close both directions (a failure is logged), run the status task.\<close>

definition Stop :: "env \<Rightarrow> GatewayChannel \<Rightarrow> history \<Rightarrow> GatewayChannel \<times> history" where
  "Stop e c h =
     (let g = gatewayId c;
          c1 = c\<lparr>cancelled := True\<rparr>;
          h1 = h @ [CtxCancel g];
          h2 = h1 @ [OutClose g];
          h3 = (case outClose e g h1 of
                  Some err \<Rightarrow> h2 @ [LogError ''error closing gateway output channel'']
                | None \<Rightarrow> h2);
          h4 = h3 @ [InClose g];
          h5 = (case inClose e g h3 of
                  Some err \<Rightarrow> h4 @ [LogError ''error closing gateway input channel'']
                | None \<Rightarrow> h4)
      in (c1, h5 @ [UpdateGatewayStatus g ''off'']))"

text \<open>\<open>GatewayChannel.Close\<close>: \<open>Stop\<close>, then the result of closing the read side once more.\<close>

definition GatewayChannel_Close ::
  "env \<Rightarrow> GatewayChannel \<Rightarrow> history \<Rightarrow> error option \<times> GatewayChannel \<times> history" where
  "GatewayChannel_Close e c h =
     (let (c1, h1) = Stop e c h
      in (outClose e (gatewayId c1) h1, c1, h1 @ [OutClose (gatewayId c1)]))"

text \<open>
  \<open>PrintMessage\<close> has a value receiver and a value parameter: \<open>message\<close> is the callee's
  own copy, the assignment to its \<open>Preview\<close> changes that copy, and nothing but the log
  line leaves the function.
\<close>

definition PrintMessage :: "GatewayChannel \<Rightarrow> IotMessage \<Rightarrow> history \<Rightarrow> history" where
  "PrintMessage c message h =
     (let message1 = (if length (Preview message) > 0
                      then message\<lparr>Preview := ''Some Base64 code ;)''\<rparr>
                      else message)
      in h @ [LogMessage message1 (gatewayId c)])"

definition CreateLogic :: "env \<Rightarrow> GatewayChannel \<Rightarrow> history \<Rightarrow> (Logic option \<times> error option) \<times> history" where
  "CreateLogic e c h =
     (let l = GatewayLogic (gatewayId c);
          h1 = h @ [LoadParams (gatewayId c)]
      in case loadParams e (gatewayId c) h of
           Some err \<Rightarrow> ((None, Some err), h1)
         | None \<Rightarrow> ((Some l, None), h1))"

definition CheckGatewayExistence ::
  "env \<Rightarrow> GatewayChannel \<Rightarrow> IotMessage \<Rightarrow> history \<Rightarrow> (error + bool) \<times> history" where
  "CheckGatewayExistence e c message h =
     (let h1 = h @ [DbQuery (GatewayId message)]
      in case gatewayCount e (GatewayId message) h of
           Inl err \<Rightarrow> (Inl (Wrap err ''failed searching gateway in database''), h1)
         | Inr v \<Rightarrow> if v = 0 then (Inr False, h1) else (Inr True, h1))"

text \<open>
  The processing step that \<open>Start\<close> spawns for every frame read (the inner \<open>go func\<close>),
  on the bytes \<open>buffer[:length]\<close>. A \<open>return\<close> of the step is \<open>Continue\<close>: the pump goes
  on. Calling \<open>Process\<close> on a nil \<open>bl\<close> is a nil dereference, which panics.
\<close>

definition process :: "env \<Rightarrow> IotMessage \<Rightarrow> GatewayChannel \<times> history \<Rightarrow> (GatewayChannel \<times> history) ctl" where
  "process e iotmessage s =
     (case s of (c, h) \<Rightarrow>
        (case bl c of
           None \<Rightarrow> Panic (c, h)
         | Some l \<Rightarrow>
             (let h1 = h @ [BlProcess (gatewayId c) iotmessage]
              in case blProcess e (gatewayId c) iotmessage h of
                   Some err \<Rightarrow> Continue (c, h1 @ [LogError ''error processing message''])
                 | None \<Rightarrow> Continue (c, h1))))"

definition handler :: "env \<Rightarrow> string \<Rightarrow> GatewayChannel \<times> history \<Rightarrow> (GatewayChannel \<times> history) ctl" where
  "handler e frame s =
     (case s of (c, h) \<Rightarrow>
        (case unmarshal e frame of
           Inl err \<Rightarrow> Continue (c, h @ [LogError ''can not unmarshal incoming gateway message''])
         | Inr iotmessage \<Rightarrow>
             (let h1 = PrintMessage c iotmessage h in
              if bl c = None then
                (case CheckGatewayExistence e c iotmessage h1 of
                   (Inl err, h2) \<Rightarrow>
                     Continue (c, h2 @ [LogError ''error checking gateway in database''])
                 | (Inr exists, h2) \<Rightarrow>
                     if \<not> exists
                     then Continue (c, h2 @ [LogWarn ''Gateway is not registered in cloud database''])
                     else
                       (case CreateLogic e c h2 of
                          ((l, err), h3) \<Rightarrow>
                            (let c1 = c\<lparr>bl := l\<rparr>;
                                 h4 = (case err of
                                         Some x \<Rightarrow> h3 @ [LogError ''cannot load business logic params'']
                                       | None \<Rightarrow> h3)
                             in process e iotmessage (c1, h4))))
              else process e iotmessage (c, h1))))"

text \<open>
  \<open>Start\<close> launches the pump (the outer \<open>go func\<close>), which owns the mutex \<open>mx\<close> and
  the 50 KiB \<open>buffer\<close>, and the pump spawns one processing step for every frame read.
  All of them share the one buffer. The pump holds \<open>mx\<close> while \<open>c.Read\<close> fills the
  front of the buffer, and a step holds \<open>mx\<close> while it decodes \<open>buffer[:length]\<close>, with
  the \<open>length\<close> of the read that spawned it. So a read and a decode never overlap, but
  the order in which the pump and the waiting steps get \<open>mx\<close> is not determined: a step
  may decode only after later reads have overwritten the buffer.

  The state of a started pump: the session; the bytes of the buffer written so far (a
  read overwrites the front and leaves the rest, and no step looks beyond what has been
  written); and the lengths held by the steps that have been spawned and have not run
  yet, oldest first.
\<close>

record pumping =
  chan :: GatewayChannel
  buffer :: string
  spawned :: "nat list"

definition Start :: "GatewayChannel \<Rightarrow> pumping" where
  "Start c = \<lparr>chan = c, buffer = [], spawned = []\<rparr>"

text \<open>
  One iteration of the pump's loop. Its input is what \<open>c.Read(buffer)\<close> does: an error,
  or a frame, of which the buffer takes at most \<open>50 * 1024\<close> bytes. The step for the
  frame is spawned, not run.
\<close>

definition pumpBody :: "error + string \<Rightarrow> pumping \<times> history \<Rightarrow> (pumping \<times> history) ctl" where
  "pumpBody rd s =
     (case s of (p, h) \<Rightarrow>
        if cancelled (chan p) then Break (p, h)
        else
          (let h1 = h @ [OutRead (gatewayId (chan p))] in
           case rd of
             Inl err \<Rightarrow> Continue (p, h1 @ [LogError ''error reading channel''])
           | Inr frame \<Rightarrow>
               (let len = min (size frame) (50 * 1024)
                in Continue (p\<lparr>buffer := take len frame @ drop len (buffer p),
                               spawned := spawned p @ [len]\<rparr>, h1))))"

text \<open>
  The spawned step number \<open>i\<close> gets \<open>mx\<close> and runs: it is \<open>handler\<close> on the bytes
  that the buffer holds now, cut at the step's own length. The part of the step after the
  decode takes no lock; it is run here in one piece.
\<close>

definition stepBody :: "env \<Rightarrow> nat \<Rightarrow> pumping \<times> history \<Rightarrow> (pumping \<times> history) ctl" where
  "stepBody e i s =
     (case s of (p, h) \<Rightarrow>
        if i < size (spawned p) then
          (case handler e (take (spawned p ! i) (buffer p)) (chan p, h) of
             Continue (c, h') \<Rightarrow>
               Continue (p\<lparr>chan := c, spawned := take i (spawned p) @ drop (Suc i) (spawned p)\<rparr>, h')
           | Break (c, h') \<Rightarrow> Break (p\<lparr>chan := c\<rparr>, h')
           | Panic (c, h') \<Rightarrow> Panic (p\<lparr>chan := c\<rparr>, h'))
        else Continue (p, h))"

text \<open>
  A schedule says who gets \<open>mx\<close> next: the pump, with what its read does, or one of
  the spawned steps. \<open>pump\<close> runs a started pump along a schedule.
\<close>

datatype turn = PumpReads "error + string" | StepRuns nat

definition turnBody :: "env \<Rightarrow> turn \<Rightarrow> pumping \<times> history \<Rightarrow> (pumping \<times> history) ctl" where
  "turnBody e t s = (case t of PumpReads rd \<Rightarrow> pumpBody rd s | StepRuns i \<Rightarrow> stepBody e i s)"

definition pump :: "env \<Rightarrow> turn list \<Rightarrow> pumping \<times> history \<Rightarrow> (pumping \<times> history) ctl" where
  "pump e turns s = loop (turnBody e) turns s"

section \<open>The broker manager\<close>

text \<open>
  Modelled from the spec: the Session Registry (\<open>GatewayChannelsMap\<close> with
  \<open>NewGatewayChannelsMap\<close>, \<open>Add\<close>, \<open>Get\<close>, \<open>Remove\<close>, \<open>GetChannels\<close>) is declared
  outside the two files. The spec calls it a mapping from gateway identifier to gateway
  session with at most one session per identifier, so it is an association list with one
  entry per identifier: \<open>Add\<close> stores or replaces, \<open>Get\<close> of an absent identifier is
  nil, \<open>Remove\<close> drops the entry, \<open>GetChannels\<close> lists the stored sessions. A stored
  value is an \<open>interfaces.Channel\<close>, nil being \<open>None\<close>. The manager holds its sessions
  only here, so an entry holds the session's state itself, and closing a stored session
  updates its entry.
\<close>

type_synonym GatewayChannelsMap = "(string \<times> GatewayChannel option) list"

definition NewGatewayChannelsMap :: GatewayChannelsMap where
  "NewGatewayChannelsMap = []"

primrec Add :: "string \<Rightarrow> GatewayChannel option \<Rightarrow> GatewayChannelsMap \<Rightarrow> GatewayChannelsMap" where
  "Add k ch [] = [(k, ch)]"
| "Add k ch (p # ps) = (if fst p = k then (k, ch) # ps else p # Add k ch ps)"

definition Get :: "string \<Rightarrow> GatewayChannelsMap \<Rightarrow> GatewayChannel option" where
  "Get k reg = (case map_of reg k of None \<Rightarrow> None | Some ch \<Rightarrow> ch)"

definition Remove :: "string \<Rightarrow> GatewayChannelsMap \<Rightarrow> GatewayChannelsMap" where
  "Remove k reg = filter (\<lambda>p. fst p \<noteq> k) reg"

definition GetChannels :: "GatewayChannelsMap \<Rightarrow> GatewayChannel option list" where
  "GetChannels reg = map snd reg"

text \<open>
  The sessions are reached through pointers, so what a caller does to the sessions that
  \<open>GetChannels\<close> gave it shows in the Registry: \<open>stored reg chs\<close> is the Registry
  \<open>reg\<close> whose sessions, in the order of \<open>GetChannels\<close>, are now \<open>chs\<close>.
\<close>

definition stored :: "GatewayChannelsMap \<Rightarrow> GatewayChannel option list \<Rightarrow> GatewayChannelsMap" where
  "stored reg chs = zip (map fst reg) chs"

text \<open>
  The fields of \<open>Manager\<close> that the modelled methods use: \<open>Conn\<close> and \<open>Ch\<close> say whether
  the pointer is non-nil, \<open>evQueName\<close> is \<open>evQue.Name\<close>. The connection parameters are
  used by \<open>Open\<close> only and are left out.
\<close>

record Manager =
  ServerID :: string
  Conn :: bool
  Ch :: bool
  evQueName :: string
  gwChans :: GatewayChannelsMap

definition NewManager :: "string \<Rightarrow> Manager" where
  "NewManager sid =
     \<lparr>ServerID = sid, Conn = False, Ch = False, evQueName = [], gwChans = NewGatewayChannelsMap\<rparr>"

text \<open>
  The loop over \<open>GetChannels\<close> in \<open>Manager.Close\<close>: a nil session is skipped, and the
  first session whose \<open>Close\<close> reports an error ends the loop and the method. The result
  is that error, the sessions as the loop leaves them, and the history.
\<close>

fun closeChannels ::
  "env \<Rightarrow> GatewayChannel option list \<Rightarrow> history \<Rightarrow>
   error option \<times> GatewayChannel option list \<times> history" where
  "closeChannels e [] h = (None, [], h)"
| "closeChannels e (None # r) h =
     (case closeChannels e r h of (res, r', h') \<Rightarrow> (res, None # r', h'))"
| "closeChannels e (Some ch # r) h =
     (case GatewayChannel_Close e ch h of
        (Some err, ch', h1) \<Rightarrow>
          (Some (Wrap err ''error closing stored gateway channel''), Some ch' # r, h1)
      | (None, ch', h1) \<Rightarrow>
          (case closeChannels e r h1 of (res, r', h') \<Rightarrow> (res, Some ch' # r', h')))"

text \<open>
  \<open>Manager.Close\<close>. The result is \<open>None\<close> when the method panics: \<open>QueueDelete\<close> called
  through a nil \<open>Ch\<close>. Otherwise it is the returned error, the manager and the history.
\<close>

definition Manager_Close ::
  "env \<Rightarrow> Manager \<times> history \<Rightarrow> (error option \<times> Manager \<times> history) option" where
  "Manager_Close e s =
     (case s of (m, h) \<Rightarrow>
        (case closeChannels e (GetChannels (gwChans m)) h of
           (Some err, chs, h1) \<Rightarrow> Some (Some err, m\<lparr>gwChans := stored (gwChans m) chs\<rparr>, h1)
         | (None, chs, h1) \<Rightarrow>
             (let m1 = m\<lparr>gwChans := stored (gwChans m) chs\<rparr> in
              if length (evQueName m) > 0 \<and> \<not> Ch m then None
              else
                (let h2 = (if length (evQueName m) > 0
                           then (case queueDelete e (evQueName m) h1 of
                                   Some err \<Rightarrow> h1 @ [QueueDelete (evQueName m), LogError ''failed deleting queue'']
                                 | None \<Rightarrow> h1 @ [QueueDelete (evQueName m)])
                           else h1)
                 in case (if Ch m then chClose e h2 else None) of
                      Some err \<Rightarrow>
                        Some (Some (Wrap err ''error closing management channel''), m1, h2 @ [ChClose])
                    | None \<Rightarrow>
                        (let h3 = (if Ch m then h2 @ [ChClose] else h2)
                         in case (if Conn m then connClose e h3 else None) of
                              Some err \<Rightarrow>
                                Some (Some (Wrap err ''error closing connection to broker''),
                                      m1, h3 @ [ConnClose])
                            | None \<Rightarrow>
                                Some (None, m1, if Conn m then h3 @ [ConnClose] else h3))))))"

text \<open>
  \<open>strings.Split s sep\<close> for a separator of one character: the pieces between the
  separators, one more piece than there are separators, so \<open>[s]\<close> when there is none.
\<close>

fun Split :: "string \<Rightarrow> char \<Rightarrow> string list" where
  "Split [] sep = [[]]"
| "Split (c # cs) sep =
     (if c = sep then [] # Split cs sep
      else (case Split cs sep of
              [] \<Rightarrow> [[c]]
            | w # ws \<Rightarrow> (c # w) # ws))"

text \<open>
  An \<open>amqp.Delivery\<close>: its routing key, and the entry \<open>Headers["name"]\<close>, an
  \<open>interface{}\<close> that holds a string or something else, or is missing. One round of
  \<open>select\<close> in \<open>readExchangeEvent\<close> takes the cancelled context, a delivery, or the
  closed event channel.
\<close>

datatype hvalue = HString string | HOther

record Delivery =
  RoutingKey :: string
  HeaderName :: "hvalue option"

datatype selected = CtxDone | Received Delivery | ChanClosed

type_synonym exchangeEvent = "string \<rightharpoonup> string"

text \<open>
  \<open>readExchangeEvent\<close>: \<open>None\<close> is the panic of the unchecked type assertion
  \<open>message.Headers["name"].(string)\<close>; otherwise the pair \<open>(ee, err)\<close> returned, the nil
  map being the empty map.
\<close>

definition readExchangeEvent :: "selected \<Rightarrow> (exchangeEvent \<times> error option) option" where
  "readExchangeEvent sel =
     (case sel of
        CtxDone \<Rightarrow> Some (Map.empty, Some ''interrupted reading exchange'')
      | Received message \<Rightarrow>
          (case HeaderName message of
             Some (HString name) \<Rightarrow>
               Some ([''eventType'' \<mapsto> RoutingKey message, ''queueName'' \<mapsto> name], None)
           | Some HOther \<Rightarrow> None
           | None \<Rightarrow> None)
      | ChanClosed \<Rightarrow> Some (Map.empty, Some ''error reading exchange event''))"

text \<open>
  The body of the \<open>for\<close> loop of \<open>ProcessExchangeEvents\<close>, on the outcome of the
  \<open>select\<close> of this iteration. Calling \<open>Start\<close> on the nil that \<open>NewGatewayChannel\<close>
  returns when the reader or the writer cannot be made is a nil dereference.
\<close>

definition eventBody :: "env \<Rightarrow> selected \<Rightarrow> Manager \<times> history \<Rightarrow> (Manager \<times> history) ctl" where
  "eventBody e sel s =
     (case s of (m, h) \<Rightarrow>
        (case readExchangeEvent sel of
           None \<Rightarrow> Panic (m, h)
         | Some (ee, Some err) \<Rightarrow> Continue (m, h)
         | Some (ee, None) \<Rightarrow>
             (let h1 = h @ [LogDebug ''RabbitMQ event''] in
              case ee ''eventType'' of
                None \<Rightarrow> Continue (m, h1)
              | Some eventType \<Rightarrow>
                  (case ee ''queueName'' of
                     None \<Rightarrow>
                       Continue (m, h1 @ [LogError ''error reading queue name from event exchange''])
                   | Some queueName \<Rightarrow>
                       (let strArr = Split queueName (CHR ''.'') in
                        case strArr of
                          [] \<Rightarrow> Panic (m, h1)
                        | gatewayID # rest \<Rightarrow>
                            if length strArr > 1 \<and> strArr ! 1 = ''in'' then
                              (if eventType = ''queue.created'' then
                                 (case NewGatewayChannel e (ServerID m) gatewayID h1 of
                                    (None, h2) \<Rightarrow> Panic (m, h2)
                                  | (Some ch, h2) \<Rightarrow>
                                      Continue (m\<lparr>gwChans := Add gatewayID (Some ch) (gwChans m)\<rparr>,
                                                h2 @ [PumpStarted gatewayID]))
                               else if eventType = ''queue.deleted'' then
                                 (case Get gatewayID (gwChans m) of
                                    Some ch \<Rightarrow>
                                      (case GatewayChannel_Close e ch h1 of
                                         (res, ch', h2) \<Rightarrow>
                                           Continue (m\<lparr>gwChans := Remove gatewayID (gwChans m)\<rparr>, h2))
                                  | None \<Rightarrow>
                                      Continue (m, h1 @ [LogError ''no stored gateway info'']))
                               else Continue (m, h1))
                            else Continue (m, h1))))))"

text \<open>
  \<open>ProcessExchangeEvents\<close> on an unbounded schedule \<open>sel\<close> of \<open>select\<close> outcomes, from
  iteration \<open>i\<close>. The value \<open>None\<close> is a loop that never ends; \<open>Some\<close> is the state in
  which it ended.
\<close>

partial_function (option) ProcessExchangeEvents ::
  "env \<Rightarrow> (nat \<Rightarrow> selected) \<Rightarrow> nat \<Rightarrow> Manager \<times> history \<Rightarrow> (Manager \<times> history) ctl option" where
  "ProcessExchangeEvents e sel i s =
     (case eventBody e (sel i) s of
        Continue s' \<Rightarrow> ProcessExchangeEvents e sel (Suc i) s'
      | Break s' \<Rightarrow> Some (Break s')
      | Panic s' \<Rightarrow> Some (Panic s'))"

text \<open>
  \<open>DoGatewayRPC\<close>. Every stored session is a \<open>*GatewayChannel\<close>, the one implementation
  of \<open>interfaces.Channel\<close> in the two files, so the type assertion fails on nil only.
\<close>

definition DoGatewayRPC ::
  "env \<Rightarrow> string \<Rightarrow> IotMessage \<Rightarrow> Manager \<times> history \<Rightarrow> (error + IotMessage) \<times> history" where
  "DoGatewayRPC e gatewayID request s =
     (case s of (m, h) \<Rightarrow>
        (case Get gatewayID (gwChans m) of
           None \<Rightarrow> (Inl ''error getting channel with specified gatewayID'', h)
         | Some gwChan \<Rightarrow>
             (let h1 = h @ [SessionRPC gatewayID request] in
              case sessionRPC e gatewayID request h of
                Inl err \<Rightarrow> (Inl (Wrap err ''failed making RPC to gateway channel''), h1)
              | Inr response \<Rightarrow> (Inr response, h1))))"

text \<open>
  What happens to a manager over time: the event loop takes the outcome of its next
  \<open>select\<close>, or \<open>Manager.Close\<close> is called (the spec's Shutdown), its result dropped.
  The two run in different goroutines; here each runs to its end before the next begins.
\<close>

datatype action = Event selected | Shutdown

definition act :: "env \<Rightarrow> action \<Rightarrow> Manager \<times> history \<Rightarrow> (Manager \<times> history) ctl" where
  "act e a s =
     (case a of
        Event sel \<Rightarrow> eventBody e sel s
      | Shutdown \<Rightarrow>
          (case Manager_Close e s of
             None \<Rightarrow> Panic s
           | Some (res, s') \<Rightarrow> Continue s'))"

section \<open>Notions the properties are stated with\<close>

text \<open>
  The Registry contains a live session for \<open>g\<close>: a session is stored under \<open>g\<close>, so
  that \<open>Get\<close> does not answer nil. The session is running when, moreover, it has not
  been stopped: its context is not cancelled.
\<close>

definition live :: "string \<Rightarrow> Manager \<Rightarrow> bool" where
  "live g m = (Get g (gwChans m) \<noteq> None)"

definition running :: "string \<Rightarrow> Manager \<Rightarrow> bool" where
  "running g m = (case Get g (gwChans m) of None \<Rightarrow> False | Some ch \<Rightarrow> \<not> cancelled ch)"

text \<open>
  An event is actionable for \<open>g\<close> when its queue name is a string whose first piece is
  \<open>g\<close> and whose second piece is \<open>in\<close>, which is the test the event loop makes.
\<close>

definition actionable :: "string \<Rightarrow> Delivery \<Rightarrow> bool" where
  "actionable g d =
     (case HeaderName d of
        Some (HString q) \<Rightarrow>
          (case Split q (CHR ''.'') of
             g' # dir # others \<Rightarrow> g' = g \<and> dir = ''in''
           | _ \<Rightarrow> False)
      | _ \<Rightarrow> False)"

text \<open>A sequence of Created and Deleted events: every delivery has one of the two routing keys.\<close>

fun createdOrDeleted :: "action \<Rightarrow> bool" where
  "createdOrDeleted (Event (Received d)) =
     (RoutingKey d = ''queue.created'' \<or> RoutingKey d = ''queue.deleted'')"
| "createdOrDeleted a = True"

text \<open>
  The spec's condition, on the actions listed from the most recent back: the most recent
  actionable event for \<open>g\<close> was Created and no Shutdown has occurred since.
  \<open>last_created\<close> is its first half alone: the most recent actionable event for \<open>g\<close>
  was Created.
\<close>

fun spec_live :: "string \<Rightarrow> action list \<Rightarrow> bool" where
  "spec_live g [] = False"
| "spec_live g (Shutdown # r) = False"
| "spec_live g (Event (Received d) # r) =
     (if actionable g d then RoutingKey d = ''queue.created'' else spec_live g r)"
| "spec_live g (Event CtxDone # r) = spec_live g r"
| "spec_live g (Event ChanClosed # r) = spec_live g r"

fun last_created :: "string \<Rightarrow> action list \<Rightarrow> bool" where
  "last_created g [] = False"
| "last_created g (Shutdown # r) = last_created g r"
| "last_created g (Event (Received d) # r) =
     (if actionable g d then RoutingKey d = ''queue.created'' else last_created g r)"
| "last_created g (Event CtxDone # r) = last_created g r"
| "last_created g (Event ChanClosed # r) = last_created g r"

text \<open>A Registry entry after its session, if any, has been stopped.\<close>

definition stopEntry :: "string \<times> GatewayChannel option \<Rightarrow> string \<times> GatewayChannel option" where
  "stopEntry p = (fst p, map_option (\<lambda>c. c\<lparr>cancelled := True\<rparr>) (snd p))"

text \<open>What \<open>PrintMessage\<close> writes to the log for a message: its \<open>Preview\<close>, if any, replaced.\<close>

definition redacted :: "IotMessage \<Rightarrow> IotMessage" where
  "redacted msg = (if Preview msg = [] then msg else msg\<lparr>Preview := ''Some Base64 code ;)''\<rparr>)"

subsection \<open>Concrete inputs\<close>

text \<open>
  An environment in which every collaborator succeeds; the only frame that decodes is
  \<open>{}\<close>, into \<open>decoded\<close>. Variants are made by record update.
\<close>

definition decoded :: IotMessage where
  "decoded = \<lparr>GatewayId = ''gw42'', Preview = ''QUJD'', Rest = []\<rparr>"

definition calm :: env where
  "calm =
     \<lparr>amqpReaderOk = (\<lambda>g h. True), amqpWriterOk = (\<lambda>g h. True),
      outClose = (\<lambda>g h. None), inClose = (\<lambda>g h. None),
      unmarshal = (\<lambda>b. if b = ''{}'' then Inr decoded else Inl ''unexpected end of JSON input''),
      gatewayCount = (\<lambda>g h. Inr 1), loadParams = (\<lambda>g h. None),
      blProcess = (\<lambda>g m h. None), sessionRPC = (\<lambda>g m h. Inr m),
      queueDelete = (\<lambda>g h. None), chClose = (\<lambda>h. None), connClose = (\<lambda>h. None)\<rparr>"

definition session :: "string \<Rightarrow> GatewayChannel" where
  "session g = \<lparr>serverId = ''srv'', gatewayId = g, cancelled = False, bl = None\<rparr>"

text \<open>A manager after \<open>Open\<close> and \<open>EventExchangeInit\<close>, with no session yet.\<close>

definition opened :: Manager where
  "opened = \<lparr>ServerID = ''srv'', Conn = True, Ch = True, evQueName = ''srv'', gwChans = []\<rparr>"

definition created :: "string \<Rightarrow> selected" where
  "created q = Received \<lparr>RoutingKey = ''queue.created'', HeaderName = Some (HString q)\<rparr>"

definition deleted :: "string \<Rightarrow> selected" where
  "deleted q = Received \<lparr>RoutingKey = ''queue.deleted'', HeaderName = Some (HString q)\<rparr>"

text \<open>
  Closing the read side a second time fails: the first \<open>out.Close\<close> of a session
  succeeds, every later one reports an error.
\<close>

definition closeOnce :: env where
  "closeOnce = calm\<lparr>outClose := (\<lambda>g h. if OutClose g \<in> set h then Some ''already closed'' else None)\<rparr>"

text \<open>A session that has its business logic.\<close>

definition attached :: "string \<Rightarrow> GatewayChannel" where
  "attached g = (session g)\<lparr>bl := Some (GatewayLogic g)\<rparr>"

text \<open>
  The frame \<open>{"gatewayId":"gw42","preview":"QUJD"}\<close> (the double quote is the byte
  \<open>0x22\<close>), and an environment in which it is the only frame that decodes.
\<close>

definition quoted :: "string \<Rightarrow> string" where
  "quoted w = CHR 0x22 # w @ [CHR 0x22]"

definition frame42 :: string where
  "frame42 = ''{'' @ quoted ''gatewayId'' @ '':'' @ quoted ''gw42'' @ '','' @
             quoted ''preview'' @ '':'' @ quoted ''QUJD'' @ ''}''"

definition wire :: env where
  "wire = calm\<lparr>unmarshal := (\<lambda>b. if b = frame42 then Inr decoded
                                     else Inl ''invalid character'')\<rparr>"

section \<open>Properties of the gateway session\<close>

text \<open>
  C9. \<open>Stop\<close> cancels the session's context first, then closes the read side and the
  write side, logging a close failure without raising it, and last issues the
  \<open>off\<close> status update for the gateway; this holds whatever the two closes answer, so
  the update is issued whether or not a close failed.
\<close>

theorem Stop_cancels_closes_then_offline:
  "Stop e c h =
     (c\<lparr>cancelled := True\<rparr>,
      h @ [CtxCancel (gatewayId c), OutClose (gatewayId c)]
        @ (case outClose e (gatewayId c) (h @ [CtxCancel (gatewayId c)]) of
             Some err \<Rightarrow> [LogError ''error closing gateway output channel'']
           | None \<Rightarrow> [])
        @ [InClose (gatewayId c)]
        @ (case inClose e (gatewayId c)
                  (h @ [CtxCancel (gatewayId c), OutClose (gatewayId c)]
                     @ (case outClose e (gatewayId c) (h @ [CtxCancel (gatewayId c)]) of
                          Some err \<Rightarrow> [LogError ''error closing gateway output channel'']
                        | None \<Rightarrow> [])) of
             Some err \<Rightarrow> [LogError ''error closing gateway input channel'']
           | None \<Rightarrow> [])
        @ [UpdateGatewayStatus (gatewayId c) ''off''])"
  by (simp add: Stop_def Let_def split: option.splits)

theorem Stop_cancels_closes_then_offline_witness:
  "Stop (calm\<lparr>outClose := (\<lambda>g h. Some ''closed''), inClose := (\<lambda>g h. Some ''closed'')\<rparr>)
        (session ''gw42'') [PumpStarted ''gw42''] =
     ((session ''gw42'')\<lparr>cancelled := True\<rparr>,
      [PumpStarted ''gw42'', CtxCancel ''gw42'', OutClose ''gw42'',
       LogError ''error closing gateway output channel'', InClose ''gw42'',
       LogError ''error closing gateway input channel'',
       UpdateGatewayStatus ''gw42'' ''off''])"
  using Stop_cancels_closes_then_offline
    [of "calm\<lparr>outClose := (\<lambda>g h. Some ''closed''), inClose := (\<lambda>g h. Some ''closed'')\<rparr>"
        "session ''gw42''" "[PumpStarted ''gw42'']"]
  by (simp add: session_def)

lemma process_attached:
  "bl c = Some l \<Longrightarrow>
   process e msg (c, h) =
     Continue (c, h @ [BlProcess (gatewayId c) msg]
                    @ (case blProcess e (gatewayId c) msg h of
                         Some err \<Rightarrow> [LogError ''error processing message'']
                       | None \<Rightarrow> []))"
  by (simp add: process_def Let_def split: option.splits)

lemma PrintMessage_redacted:
  "PrintMessage c msg h = h @ [LogMessage (redacted msg) (gatewayId c)]"
  by (simp add: PrintMessage_def redacted_def Let_def)

text \<open>
  C10. \<open>PrintMessage\<close> replaces the \<open>Preview\<close> in its own copy only: the log line carries
  the redacted copy, and the processing step that called it goes on with the message as it
  was decoded, \<open>Preview\<close> included, which is what it hands to \<open>Process\<close>.
\<close>

theorem PrintMessage_leaves_callers_message:
  assumes "unmarshal e frame = Inr msg" and "bl c = Some l"
  shows "PrintMessage c msg h = h @ [LogMessage (redacted msg) (gatewayId c)] \<and>
         handler e frame (c, h) =
           Continue (c, h @ [LogMessage (redacted msg) (gatewayId c), BlProcess (gatewayId c) msg]
                          @ (case blProcess e (gatewayId c) msg
                                    (h @ [LogMessage (redacted msg) (gatewayId c)]) of
                               Some err \<Rightarrow> [LogError ''error processing message'']
                             | None \<Rightarrow> []))"
  using assms
  by (simp add: handler_def PrintMessage_redacted process_attached Let_def)

theorem PrintMessage_leaves_callers_message_witness:
  "redacted decoded = decoded\<lparr>Preview := ''Some Base64 code ;)''\<rparr> \<and>
   PrintMessage ((session ''gw42'')\<lparr>bl := Some (GatewayLogic ''gw42'')\<rparr>) decoded [] =
     [LogMessage (decoded\<lparr>Preview := ''Some Base64 code ;)''\<rparr>) ''gw42''] \<and>
   handler calm ''{}'' ((session ''gw42'')\<lparr>bl := Some (GatewayLogic ''gw42'')\<rparr>, []) =
     Continue ((session ''gw42'')\<lparr>bl := Some (GatewayLogic ''gw42'')\<rparr>,
               [LogMessage (decoded\<lparr>Preview := ''Some Base64 code ;)''\<rparr>) ''gw42'',
                BlProcess ''gw42'' decoded])"
  using PrintMessage_leaves_callers_message
    [of calm "''{}''" decoded "(session ''gw42'')\<lparr>bl := Some (GatewayLogic ''gw42'')\<rparr>"
        "GatewayLogic ''gw42''" "[]"]
  by (simp add: calm_def session_def redacted_def decoded_def)

text \<open>
  What holds of a frame that fails to decode: the step that finds such bytes in the
  buffer logs the error and ends, whatever the state of the session, and the pump and the
  other steps are as they were. And a frame whose step runs before the next read is
  handed, whole, to the processing step.
\<close>

lemma stepBody_malformed:
  assumes "i < size (spawned p)"
      and "unmarshal e (take (spawned p ! i) (buffer p)) = Inl err"
  shows "stepBody e i (p, h) =
           Continue (p\<lparr>spawned := take i (spawned p) @ drop (Suc i) (spawned p)\<rparr>,
                     h @ [LogError ''can not unmarshal incoming gateway message''])"
  using assms by (simp add: stepBody_def handler_def)

lemma pumpBody_receives:
  assumes "\<not> cancelled (chan p)"
  shows "pumpBody (Inr frame) (p, h) =
           Continue (p\<lparr>buffer := take (min (size frame) (50 * 1024)) frame
                                   @ drop (min (size frame) (50 * 1024)) (buffer p),
                        spawned := spawned p @ [min (size frame) (50 * 1024)]\<rparr>,
                     h @ [OutRead (gatewayId (chan p))])"
  using assms by (simp add: pumpBody_def Let_def)

lemma pump_step_before_next_read:
  assumes "\<not> cancelled (chan p)" and "size frame \<le> 50 * 1024"
  shows "pump e [PumpReads (Inr frame), StepRuns (size (spawned p))] (p, h) =
           (case handler e frame (chan p, h @ [OutRead (gatewayId (chan p))]) of
              Continue (c, h') \<Rightarrow>
                Continue (p\<lparr>chan := c, buffer := frame @ drop (size frame) (buffer p)\<rparr>, h')
            | Break (c, h') \<Rightarrow>
                Break (p\<lparr>chan := c, buffer := frame @ drop (size frame) (buffer p),
                          spawned := spawned p @ [size frame]\<rparr>, h')
            | Panic (c, h') \<Rightarrow>
                Panic (p\<lparr>chan := c, buffer := frame @ drop (size frame) (buffer p),
                          spawned := spawned p @ [size frame]\<rparr>, h'))"
proof -
  have rd: "pumpBody (Inr frame) (p, h) =
              Continue (p\<lparr>buffer := frame @ drop (size frame) (buffer p),
                           spawned := spawned p @ [size frame]\<rparr>,
                        h @ [OutRead (gatewayId (chan p))])"
    using assms by (simp add: pumpBody_def Let_def min_def)
  show ?thesis
    unfolding pump_def
    by (simp add: turnBody_def rd stepBody_def split: ctl.splits prod.splits)
qed

text \<open>
  C8. A frame that fails to decode does not stop the pump, but the well-formed frame
  after it need not be processed. A new session reads the frames \<open>{\<close>, then
  \<open>{"gatewayId":"gw42","preview":"QUJD"}\<close>, then \<open>[]\<close>, the pump getting \<open>mx\<close> for
  its next read before any spawned step gets it. Each step then decodes what the third
  read left in the shared buffer, cut at its own length: all three log a decode error,
  and the well-formed frame, though received, is never decoded, printed or processed.
\<close>

theorem pump_loses_frame_to_later_read:
  "pump wire [PumpReads (Inr ''{''), PumpReads (Inr frame42), PumpReads (Inr ''[]''),
              StepRuns 0, StepRuns 0, StepRuns 0] (Start (session ''gw42''), []) =
     Continue
       (\<lparr>chan = session ''gw42'', buffer = ''[]'' @ drop 2 frame42, spawned = []\<rparr>,
        [OutRead ''gw42'', OutRead ''gw42'', OutRead ''gw42'',
         LogError ''can not unmarshal incoming gateway message'',
         LogError ''can not unmarshal incoming gateway message'',
         LogError ''can not unmarshal incoming gateway message''])"
  by (simp add: pump_def turnBody_def pumpBody_def stepBody_def handler_def wire_def calm_def
      frame42_def quoted_def Start_def session_def Let_def)

lemma handler_CreateLogic_error:
  assumes "unmarshal e frame = Inr msg"
      and "bl c = None"
      and "gatewayCount e (GatewayId msg) (PrintMessage c msg h) = Inr v"
      and "v \<noteq> 0"
      and "loadParams e (gatewayId c) (PrintMessage c msg h @ [DbQuery (GatewayId msg)]) = Some err"
  shows "handler e frame (c, h) =
           Panic (c, PrintMessage c msg h
                       @ [DbQuery (GatewayId msg), LoadParams (gatewayId c),
                          LogError ''cannot load business logic params''])"
proof -
  have "c\<lparr>bl := None\<rparr> = c"
    using assms(2) by simp
  then show ?thesis
    using assms
    by (simp add: handler_def CheckGatewayExistence_def CreateLogic_def process_def Let_def)
qed

text \<open>
  C2. With no business logic yet, a gateway that the database knows and a \<open>CreateLogic\<close>
  that fails, the processing step logs the error and then does not return: it goes on to
  call \<open>Process\<close> on the nil \<open>bl\<close> and panics. Here on the frame \<open>{}\<close> of gateway
  \<open>gw42\<close>, with \<open>LoadParams\<close> failing.
\<close>

theorem handler_CreateLogic_error_panics:
  "handler (calm\<lparr>loadParams := (\<lambda>g h. Some ''no params'')\<rparr>) ''{}'' (session ''gw42'', []) =
     Panic (session ''gw42'',
            [LogMessage (decoded\<lparr>Preview := ''Some Base64 code ;)''\<rparr>) ''gw42'',
             DbQuery ''gw42'', LoadParams ''gw42'',
             LogError ''cannot load business logic params''])"
  using handler_CreateLogic_error
    [of "calm\<lparr>loadParams := (\<lambda>g h. Some ''no params'')\<rparr>" "''{}''" decoded
        "session ''gw42''" "[]" 1 "''no params''"]
  by (simp add: calm_def session_def decoded_def PrintMessage_def)

section \<open>Properties of the broker manager\<close>

text \<open>
  C7. \<open>DoGatewayRPC\<close> for an identifier with no live session in the Registry returns the
  error at once: the history is unchanged, so no collaborator was called, the session RPC
  among them, and there is nothing to wait for.
\<close>

theorem DoGatewayRPC_unknown_gateway:
  "\<not> live gatewayID m \<Longrightarrow>
   DoGatewayRPC e gatewayID request (m, h) =
     (Inl ''error getting channel with specified gatewayID'', h)"
  by (simp add: DoGatewayRPC_def live_def)

theorem DoGatewayRPC_unknown_gateway_witness:
  "\<not> live ''gw42'' (opened\<lparr>gwChans := [(''gw7'', Some (attached ''gw7''))]\<rparr>) \<and>
   DoGatewayRPC calm ''gw42'' decoded (opened\<lparr>gwChans := [(''gw7'', Some (attached ''gw7''))]\<rparr>, []) =
     (Inl ''error getting channel with specified gatewayID'', [])"
  using DoGatewayRPC_unknown_gateway
    [of "''gw42''" "opened\<lparr>gwChans := [(''gw7'', Some (attached ''gw7''))]\<rparr>" calm decoded "[]"]
  by (simp add: Get_def live_def)

lemma eventBody_unparseable_string_ignored:
  assumes "HeaderName d = Some (HString q)"
      and "\<not> actionable g d" and "Split q (CHR ''.'') = g # rest"
  shows "eventBody e (Received d) (m, h) = Continue (m, h @ [LogDebug ''RabbitMQ event''])"
  using assms
  by (cases rest) (auto simp: eventBody_def readExchangeEvent_def actionable_def Let_def)

text \<open>
  C5. An event whose queue name is missing, or is not a string, is not ignored: the
  unchecked type assertion in \<open>readExchangeEvent\<close> panics, whatever the routing key and
  the state of the manager.
\<close>

theorem eventBody_missing_queue_name_panics:
  "eventBody e (Received \<lparr>RoutingKey = rk, HeaderName = None\<rparr>) (m, h) = Panic (m, h) \<and>
   eventBody e (Received \<lparr>RoutingKey = rk, HeaderName = Some HOther\<rparr>) (m, h) = Panic (m, h)"
  by (simp add: eventBody_def readExchangeEvent_def)

lemma eventBody_never_breaks: "eventBody e sel s \<noteq> Break s'"
  by (cases s) (auto simp: eventBody_def Let_def NewGatewayChannel_def
        split: option.splits list.splits prod.splits if_splits)

lemma ProcessExchangeEvents_never_breaks:
  assumes "ProcessExchangeEvents e sel i s = Some y"
  shows "\<forall>s'. y \<noteq> Break s'"
  by (rule ProcessExchangeEvents.raw_induct
        [where P = "\<lambda>e sel i s y. \<forall>s'. y \<noteq> Break s'", OF _ assms])
     (auto split: ctl.splits simp: eventBody_never_breaks)

lemma eventBody_cancelled: "eventBody e CtxDone s = Continue s"
  by (cases s) (simp add: eventBody_def readExchangeEvent_def)

lemma ProcessExchangeEvents_ends_on_other_input:
  assumes "ProcessExchangeEvents e sel i s = Some y"
  shows "\<exists>j\<ge>i. sel j \<noteq> CtxDone"
proof (rule ProcessExchangeEvents.raw_induct
        [where P = "\<lambda>e sel i s y. \<exists>j\<ge>i. sel j \<noteq> CtxDone", OF _ assms])
  fix f e sel i s y
  assume IH: "\<And>e' sel i s y. f e' sel i s = Some y \<Longrightarrow> \<exists>j\<ge>i. sel j \<noteq> CtxDone"
    and step: "(case eventBody e (sel i) s of
                  Continue s' \<Rightarrow> f e sel (Suc i) s'
                | Break s' \<Rightarrow> Some (Break s')
                | Panic s' \<Rightarrow> Some (Panic s')) = Some y"
  show "\<exists>j\<ge>i. sel j \<noteq> CtxDone"
  proof (cases "sel i = CtxDone")
    case True
    with step have "f e sel (Suc i) s = Some y" by (simp add: eventBody_cancelled)
    from IH [OF this] obtain j where "j \<ge> Suc i" "sel j \<noteq> CtxDone" by blast
    then show ?thesis by (intro exI [of _ j]) simp
  next
    case False
    then show ?thesis by blast
  qed
qed

text \<open>
  C3. With the context cancelled and nothing else to read, every \<open>select\<close> takes the
  cancelled context, \<open>readExchangeEvent\<close> returns its error, and the loop takes
  \<open>continue\<close>: \<open>ProcessExchangeEvents\<close> never returns.
\<close>

theorem ProcessExchangeEvents_cancelled_never_returns:
  "ProcessExchangeEvents e (\<lambda>i. CtxDone) i s = None"
proof (cases "ProcessExchangeEvents e (\<lambda>i. CtxDone) i s")
  case None
  then show ?thesis .
next
  case (Some y)
  from ProcessExchangeEvents_ends_on_other_input [OF this] show ?thesis by simp
qed

text \<open>
  The two views of the event loop agree: while the body keeps answering \<open>Continue\<close> on
  a stretch of the schedule, \<open>ProcessExchangeEvents\<close> is where \<open>loop\<close> has got to.
\<close>

lemma ProcessExchangeEvents_prefix:
  "loop (eventBody e) (map sel [i..<i + n]) s = Continue s' \<Longrightarrow>
   ProcessExchangeEvents e sel i s = ProcessExchangeEvents e sel (i + n) s'"
proof (induction n arbitrary: i s)
  case 0
  then show ?case by simp
next
  case (Suc n)
  have up: "[i..<i + Suc n] = i # [Suc i..<Suc i + n]"
    by (simp add: upt_conv_Cons)
  from Suc.prems obtain s1 where b: "eventBody e (sel i) s = Continue s1"
    and r: "loop (eventBody e) (map sel [Suc i..<Suc i + n]) s1 = Continue s'"
    unfolding up by (auto split: ctl.splits)
  have "ProcessExchangeEvents e sel i s = ProcessExchangeEvents e sel (Suc i) s1"
    by (subst ProcessExchangeEvents.simps) (simp add: b)
  also have "\<dots> = ProcessExchangeEvents e sel (Suc i + n) s'"
    by (rule Suc.IH [OF r])
  finally show ?case by simp
qed

subsection \<open>The Registry under events and Shutdown\<close>

text \<open>A manager made by \<open>NewManager\<close> starts with an empty Registry, in which no session is live.\<close>

lemma NewManager_registry_empty:
  "gwChans (NewManager sid) = NewGatewayChannelsMap \<and> \<not> live g (NewManager sid)"
  by (simp add: NewManager_def NewGatewayChannelsMap_def live_def Get_def)

lemma Get_Add: "Get g (Add k v reg) = (if g = k then v else Get g reg)"
  by (induction reg) (auto simp: Get_def)

lemma Get_Remove: "Get g (Remove k reg) = (if g = k then None else Get g reg)"
  by (induction reg) (auto simp: Get_def Remove_def)

lemma Get_map_stopEntry:
  "Get g (map stopEntry reg) = map_option (\<lambda>c. c\<lparr>cancelled := True\<rparr>) (Get g reg)"
  by (induction reg) (auto simp: Get_def stopEntry_def)

lemma GatewayChannel_Close_result:
  "GatewayChannel_Close e ch h =
     (outClose e (gatewayId ch) (snd (Stop e ch h)), ch\<lparr>cancelled := True\<rparr>,
      snd (Stop e ch h) @ [OutClose (gatewayId ch)])"
  by (simp add: GatewayChannel_Close_def Stop_def Let_def)

lemma closeChannels_entries:
  "closeChannels e chs h = (res, chs', h') \<Longrightarrow>
   list_all2 (\<lambda>c c'. c' = c \<or> c' = map_option (\<lambda>c. c\<lparr>cancelled := True\<rparr>) c) chs chs'"
proof (induction e chs h arbitrary: res chs' h' rule: closeChannels.induct)
  case (1 e h)
  then show ?case by simp
next
  case (2 e r h)
  then show ?case by (auto split: prod.splits)
next
  case (3 e ch r h)
  show ?case
  proof (cases "outClose e (gatewayId ch) (snd (Stop e ch h))")
    case None
    with 3 show ?thesis
      by (auto simp: GatewayChannel_Close_result split: prod.splits)
  next
    case (Some err)
    with 3 show ?thesis
      by (auto simp: GatewayChannel_Close_result list_all2_refl)
  qed
qed

lemma entries_Get_None:
  "list_all2 (\<lambda>c c'. c' = c \<or> c' = map_option (\<lambda>c. c\<lparr>cancelled := True\<rparr>) c)
     (GetChannels reg) chs' \<Longrightarrow>
   (Get g (stored reg chs') = None) = (Get g reg = None)"
proof (induction reg arbitrary: chs')
  case Nil
  then show ?case by (simp add: stored_def GetChannels_def)
next
  case (Cons p reg)
  from Cons.prems obtain c' cs' where chs': "chs' = c' # cs'"
    and c': "c' = snd p \<or> c' = map_option (\<lambda>c. c\<lparr>cancelled := True\<rparr>) (snd p)"
    and rest: "list_all2 (\<lambda>c c'. c' = c \<or> c' = map_option (\<lambda>c. c\<lparr>cancelled := True\<rparr>) c)
                 (GetChannels reg) cs'"
    by (auto simp: GetChannels_def list_all2_Cons1)
  have "stored (p # reg) chs' = (fst p, c') # stored reg cs'"
    by (simp add: stored_def chs')
  then show ?case
    using Cons.IH [OF rest] c'
    by (cases p) (auto simp: Get_def)
qed

lemma closeChannels_Get_None:
  "closeChannels e (GetChannels reg) h = (res, chs', h') \<Longrightarrow>
   (Get g (stored reg chs') = None) = (Get g reg = None)"
  by (rule entries_Get_None [OF closeChannels_entries])

lemma closeChannels_None:
  "closeChannels e chs h = (None, chs', h') \<Longrightarrow>
   chs' = map (map_option (\<lambda>c. c\<lparr>cancelled := True\<rparr>)) chs"
  by (induction e chs h arbitrary: chs' h' rule: closeChannels.induct)
     (auto simp: GatewayChannel_Close_result split: prod.splits option.splits)

lemma stored_stopped:
  "stored reg (map (map_option (\<lambda>c. c\<lparr>cancelled := True\<rparr>)) (GetChannels reg)) = map stopEntry reg"
  by (induction reg) (auto simp: stored_def GetChannels_def stopEntry_def)

lemma closeChannels_no_errors:
  "(\<forall>g h. outClose e g h = None) \<Longrightarrow> fst (closeChannels e chs h) = None"
  by (induction e chs h rule: closeChannels.induct)
     (auto simp: GatewayChannel_Close_result split: prod.splits option.splits)

lemma closeChannels_append:
  "closeChannels e (pre @ rest) h =
     (case closeChannels e pre h of
        (Some err, pre', h1) \<Rightarrow> (Some err, pre' @ rest, h1)
      | (None, pre', h1) \<Rightarrow>
          (case closeChannels e rest h1 of (res, rest', h2) \<Rightarrow> (res, pre' @ rest', h2)))"
  by (induction e pre h rule: closeChannels.induct)
     (auto simp: GatewayChannel_Close_result split: prod.splits option.splits)

lemma loop_snoc:
  "loop body (xs @ [x]) s =
     (case loop body xs s of
        Continue s' \<Rightarrow> body x s'
      | Break s' \<Rightarrow> Break s'
      | Panic s' \<Rightarrow> Panic s')"
  by (induction xs arbitrary: s) (auto split: ctl.splits)

lemma spec_live_last_created: "spec_live g r \<Longrightarrow> last_created g r"
  by (induction g r rule: spec_live.induct) (auto split: if_splits)

lemma Split_nonempty: "Split q sep \<noteq> []"
  by (induction q) (auto split: list.splits)


lemma actionable_iff:
  assumes "HeaderName d = Some (HString q)" and "Split q (CHR ''.'') = gid # rest"
  shows "actionable g d = (g = gid \<and> 1 < length (gid # rest) \<and> (gid # rest) ! 1 = ''in'')"
  using assms by (cases rest) (auto simp: actionable_def)

lemma eventBody_Received:
  assumes "HeaderName d = Some (HString q)" and "Split q (CHR ''.'') = gid # rest"
  shows "eventBody e (Received d) (m, h) =
     (if actionable gid d then
        (if RoutingKey d = ''queue.created'' then
           (case NewGatewayChannel e (ServerID m) gid (h @ [LogDebug ''RabbitMQ event'']) of
              (None, h2) \<Rightarrow> Panic (m, h2)
            | (Some ch, h2) \<Rightarrow>
                Continue (m\<lparr>gwChans := Add gid (Some ch) (gwChans m)\<rparr>, h2 @ [PumpStarted gid]))
         else if RoutingKey d = ''queue.deleted'' then
           (case Get gid (gwChans m) of
              Some ch \<Rightarrow>
                Continue (m\<lparr>gwChans := Remove gid (gwChans m)\<rparr>,
                          snd (snd (GatewayChannel_Close e ch (h @ [LogDebug ''RabbitMQ event'']))))
            | None \<Rightarrow>
                Continue (m, h @ [LogDebug ''RabbitMQ event'', LogError ''no stored gateway info'']))
         else Continue (m, h @ [LogDebug ''RabbitMQ event'']))
      else Continue (m, h @ [LogDebug ''RabbitMQ event'']))"
  unfolding actionable_iff [OF assms]
  using assms
  by (simp add: eventBody_def readExchangeEvent_def Let_def split: prod.splits option.splits)

lemma NewGatewayChannel_Some:
  "NewGatewayChannel e sid gid h = (Some ch, h2) \<Longrightarrow>
   ch = \<lparr>serverId = sid, gatewayId = gid, cancelled = False, bl = None\<rparr> \<and>
   h2 = h @ [AmqpReader gid, AmqpWriter gid]"
  by (auto simp: NewGatewayChannel_def Let_def split: if_splits)

text \<open>The effect of one event on what the Registry holds for a gateway.\<close>

lemma eventBody_effect:
  assumes "eventBody e (Received d) (m, h) = Continue (m', h')"
  shows "(\<not> actionable g d \<longrightarrow> Get g (gwChans m') = Get g (gwChans m)) \<and>
         (actionable g d \<and> RoutingKey d = ''queue.created'' \<longrightarrow> running g m') \<and>
         (actionable g d \<and> RoutingKey d = ''queue.deleted'' \<longrightarrow> Get g (gwChans m') = None)"
proof -
  from assms obtain q where q: "HeaderName d = Some (HString q)"
    by (auto simp: eventBody_def readExchangeEvent_def split: option.splits hvalue.splits)
  obtain gid rest where sp: "Split q (CHR ''.'') = gid # rest"
    using Split_nonempty [of q "CHR ''.''"] by (cases "Split q (CHR ''.'')") auto
  have same: "actionable g d \<Longrightarrow> g = gid" for g
    by (simp add: actionable_iff [OF q sp])
  show ?thesis
  proof (cases "actionable gid d")
    case False
    then have "\<not> actionable g d" using same by blast
    moreover have "m' = m"
      using assms False by (simp add: eventBody_Received [OF q sp])
    ultimately show ?thesis by simp
  next
    case True
    show ?thesis
    proof (cases "g = gid")
      case g: True
      show ?thesis
        using assms True g
        by (auto simp: eventBody_Received [OF q sp] running_def Get_Add Get_Remove
            split: if_splits prod.splits option.splits dest!: NewGatewayChannel_Some)
    next
      case g: False
      then have "\<not> actionable g d" using same by blast
      then show ?thesis
        using assms True g
        by (auto simp: eventBody_Received [OF q sp] Get_Add Get_Remove
            split: if_splits prod.splits option.splits)
    qed
  qed
qed

lemma eventBody_unread:
  "sel = CtxDone \<or> sel = ChanClosed \<Longrightarrow> eventBody e sel s = Continue s"
  by (cases s) (auto simp: eventBody_def readExchangeEvent_def)

lemma Manager_Close_registry:
  assumes "Manager_Close e (m, h) = Some (res, m', h')"
  shows "(Get g (gwChans m') = None) = (Get g (gwChans m) = None) \<and>
         ((\<forall>g h. outClose e g h = None) \<longrightarrow> \<not> running g m')"
proof -
  obtain r chs h1 where cc: "closeChannels e (GetChannels (gwChans m)) h = (r, chs, h1)"
    by (cases "closeChannels e (GetChannels (gwChans m)) h") auto
  have reg: "gwChans m' = stored (gwChans m) chs"
    using assms cc
    by (cases r) (auto simp: Manager_Close_def Let_def split: if_splits option.splits)
  have 1: "(Get g (gwChans m') = None) = (Get g (gwChans m) = None)"
    unfolding reg by (rule closeChannels_Get_None [OF cc])
  have 2: "\<not> running g m'" if "\<forall>g h. outClose e g h = None"
  proof -
    have "r = None"
      using closeChannels_no_errors [OF that, of "GetChannels (gwChans m)" h] cc by simp
    then have "gwChans m' = map stopEntry (gwChans m)"
      using closeChannels_None cc reg stored_stopped by metis
    then show ?thesis
      by (cases "Get g (gwChans m)") (simp_all add: running_def Get_map_stopEntry)
  qed
  from 1 2 show ?thesis by blast
qed

text \<open>What the event loop and Shutdown maintain.\<close>

lemma tracking_invariant:
  assumes "gwChans m0 = NewGatewayChannelsMap"
      and "\<forall>a\<in>set acts. createdOrDeleted a"
      and "loop (act e) acts (m0, h0) = Continue (m, h)"
  shows "(\<forall>g. live g m = last_created g (rev acts)) \<and>
         (\<forall>g. spec_live g (rev acts) \<longrightarrow> running g m) \<and>
         ((\<forall>g h. outClose e g h = None) \<longrightarrow> (\<forall>g. running g m \<longrightarrow> spec_live g (rev acts)))"
  using assms(2,3)
proof (induction acts arbitrary: m h rule: rev_induct)
  case Nil
  then show ?case
    using assms(1) by (simp add: Get_def NewGatewayChannelsMap_def running_def live_def)
next
  case (snoc a acts)
  from snoc.prems(2) obtain m1 h1
    where run: "loop (act e) acts (m0, h0) = Continue (m1, h1)"
      and step: "act e a (m1, h1) = Continue (m, h)"
    by (auto simp: loop_snoc split: ctl.splits)
  from snoc.prems(1) have cd: "\<forall>a\<in>set acts. createdOrDeleted a" and cda: "createdOrDeleted a"
    by simp_all
  note IH = snoc.IH [OF cd run]
  show ?case
  proof (cases a)
    case Shutdown
    with step obtain res where mc: "Manager_Close e (m1, h1) = Some (res, m, h)"
      by (auto simp: act_def split: option.splits)
    show ?thesis
      using IH Manager_Close_registry [OF mc] by (simp add: Shutdown live_def)
  next
    case (Event sel)
    show ?thesis
    proof (cases sel)
      case CtxDone
      with step Event have "m = m1" by (simp add: act_def eventBody_unread)
      then show ?thesis using IH by (simp add: Event CtxDone)
    next
      case ChanClosed
      with step Event have "m = m1" by (simp add: act_def eventBody_unread)
      then show ?thesis using IH by (simp add: Event ChanClosed)
    next
      case (Received d)
      with step Event have eb: "eventBody e (Received d) (m1, h1) = Continue (m, h)"
        by (simp add: act_def)
      have rk: "RoutingKey d = ''queue.created'' \<or> RoutingKey d = ''queue.deleted''"
        using cda by (simp add: Event Received)
      have eff: "(\<not> actionable g d \<longrightarrow> Get g (gwChans m) = Get g (gwChans m1)) \<and>
         (actionable g d \<and> RoutingKey d = ''queue.created'' \<longrightarrow> running g m) \<and>
         (actionable g d \<and> RoutingKey d = ''queue.deleted'' \<longrightarrow> Get g (gwChans m) = None)" for g
        by (rule eventBody_effect [OF eb])
      have running_same: "\<not> actionable g d \<Longrightarrow> running g m = running g m1" for g
        using eff [of g] by (simp add: running_def)
      have running_Some: "running g m \<Longrightarrow> Get g (gwChans m) \<noteq> None" for g
        by (auto simp: running_def split: option.splits)
      show ?thesis
        using IH rk eff running_same running_Some
        by (auto simp: Event Received running_def live_def)
    qed
  qed
qed


lemmas run_simps =
  act_def eventBody_def readExchangeEvent_def created_def deleted_def NewGatewayChannel_def
  Manager_Close_def GatewayChannel_Close_def Stop_def Get_def Remove_def GetChannels_def
  stored_def
  calm_def closeOnce_def opened_def session_def attached_def Let_def

text \<open>
  C6, as stated, fails: a Created event for \<open>gw42\<close>, which has a session with its
  business logic, stores a new session in its place, and the history of the step holds no
  cancel (nor any close) of the previous session.
\<close>

theorem Created_closes_previous_session_counterexample:
  "eventBody calm (created ''gw42.in'') (opened\<lparr>gwChans := [(''gw42'', Some (attached ''gw42''))]\<rparr>, []) =
     Continue (opened\<lparr>gwChans := [(''gw42'', Some (session ''gw42''))]\<rparr>,
               [LogDebug ''RabbitMQ event'', AmqpReader ''gw42'', AmqpWriter ''gw42'',
                PumpStarted ''gw42'']) \<and>
   CtxCancel ''gw42'' \<notin> set [LogDebug ''RabbitMQ event'', AmqpReader ''gw42'', AmqpWriter ''gw42'',
                               PumpStarted ''gw42'']"
  by (simp add: run_simps)

text \<open>
  C6, amended. When the event loop processes a Created event for a gateway identifier
  that has a session in the Registry, and the reader and the writer can be made, the new
  session is started and stored under the identifier in place of the previous one; the
  step does nothing but log the event, make the reader and the writer and start the pump,
  so it does not close the previous session.
\<close>

theorem Created_replaces_registered_session:
  assumes "live g m"
      and "Split q (CHR ''.'') = g # ''in'' # rest"
      and "amqpReaderOk e g (h @ [LogDebug ''RabbitMQ event''])"
      and "amqpWriterOk e g (h @ [LogDebug ''RabbitMQ event'', AmqpReader g])"
  shows "eventBody e (created q) (m, h) =
           Continue
             (m\<lparr>gwChans :=
                   Add g (Some \<lparr>serverId = ServerID m, gatewayId = g, cancelled = False, bl = None\<rparr>)
                     (gwChans m)\<rparr>,
              h @ [LogDebug ''RabbitMQ event'', AmqpReader g, AmqpWriter g, PumpStarted g]) \<and>
         Get g (Add g (Some \<lparr>serverId = ServerID m, gatewayId = g, cancelled = False, bl = None\<rparr>)
                  (gwChans m)) =
           Some \<lparr>serverId = ServerID m, gatewayId = g, cancelled = False, bl = None\<rparr>"
proof -
  have hn: "HeaderName \<lparr>RoutingKey = ''queue.created'', HeaderName = Some (HString q)\<rparr> =
              Some (HString q)"
    by simp
  have "actionable g \<lparr>RoutingKey = ''queue.created'', HeaderName = Some (HString q)\<rparr>"
    by (simp add: actionable_def assms(2))
  then show ?thesis
    using assms(3,4)
    by (simp add: created_def eventBody_Received [OF hn assms(2)] NewGatewayChannel_def Get_Add)
qed

theorem Created_replaces_registered_session_witness:
  "eventBody calm (created ''gw42.in'')
     (opened\<lparr>gwChans := [(''gw7'', Some (attached ''gw7'')), (''gw42'', Some (attached ''gw42''))]\<rparr>, []) =
     Continue (opened\<lparr>gwChans := [(''gw7'', Some (attached ''gw7'')), (''gw42'', Some (session ''gw42''))]\<rparr>,
               [LogDebug ''RabbitMQ event'', AmqpReader ''gw42'', AmqpWriter ''gw42'',
                PumpStarted ''gw42''])"
proof -
  have 1: "live ''gw42'' (opened\<lparr>gwChans := [(''gw7'', Some (attached ''gw7'')),
             (''gw42'', Some (attached ''gw42''))]\<rparr>)"
    by (simp add: live_def Get_def)
  have 2: "Split ''gw42.in'' (CHR ''.'') = ''gw42'' # ''in'' # []"
    by simp
  have 3: "amqpReaderOk calm ''gw42'' ([] @ [LogDebug ''RabbitMQ event''])"
    and 4: "amqpWriterOk calm ''gw42'' ([] @ [LogDebug ''RabbitMQ event'', AmqpReader ''gw42''])"
    by (simp_all add: calm_def)
  show ?thesis
    using Created_replaces_registered_session [OF 1 2 3 4]
    by (simp add: opened_def session_def)
qed

text \<open>
  C4, as stated, fails: with two sessions stored and the second close of the read side of
  \<open>gw42\<close> failing, \<open>Manager.Close\<close> returns that error at once; \<open>gw7\<close> is left
  running, and the queue, the channel and the connection are left as they are.
\<close>

theorem Manager_Close_best_effort_counterexample:
  "Manager_Close closeOnce
     (opened\<lparr>gwChans := [(''gw42'', Some (attached ''gw42'')), (''gw7'', Some (attached ''gw7''))]\<rparr>, []) =
   Some (Some ''error closing stored gateway channel: already closed'',
         opened\<lparr>gwChans := [(''gw42'', Some ((attached ''gw42'')\<lparr>cancelled := True\<rparr>)),
                              (''gw7'', Some (attached ''gw7''))]\<rparr>,
         [CtxCancel ''gw42'', OutClose ''gw42'', InClose ''gw42'',
          UpdateGatewayStatus ''gw42'' ''off'', OutClose ''gw42''])"
  by (simp add: run_simps Wrap_def)

text \<open>
  C4, amended. \<open>Manager.Close\<close> closes the stored sessions in turn and returns, wrapped,
  the first error that a session's \<open>Close\<close> reports, at once: the sessions before it have
  been stopped, the sessions after it are left as they were, and nothing is done to the
  queue, the channel or the connection. When no session's \<open>Close\<close> reports an error,
  all sessions have been stopped, the queue is deleted (a failure is only logged), the
  channel is closed and its error, if any, returned at once; otherwise the connection is
  closed and its error, if any, returned.
\<close>

theorem Manager_Close_returns_first_error_at_once:
  "(gwChans m = pre @ (g, Some ch) # post \<and>
    closeChannels e (GetChannels pre) h = (None, pre', h1) \<and>
    GatewayChannel_Close e ch h1 = (Some err, ch', h2) \<longrightarrow>
      Manager_Close e (m, h) =
        Some (Some (Wrap err ''error closing stored gateway channel''),
              m\<lparr>gwChans := map stopEntry pre @ (g, Some (ch\<lparr>cancelled := True\<rparr>)) # post\<rparr>,
              h2)) \<and>
   (closeChannels e (GetChannels (gwChans m)) h = (None, chs, h1) \<and> Ch m \<and> Conn m \<and> evQueName m \<noteq> [] \<longrightarrow>
      Manager_Close e (m, h) =
        (let h2 = h1 @ [QueueDelete (evQueName m)]
                     @ (case queueDelete e (evQueName m) h1 of
                          Some err \<Rightarrow> [LogError ''failed deleting queue'']
                        | None \<Rightarrow> [])
         in case chClose e h2 of
              Some err \<Rightarrow>
                Some (Some (Wrap err ''error closing management channel''),
                      m\<lparr>gwChans := map stopEntry (gwChans m)\<rparr>, h2 @ [ChClose])
            | None \<Rightarrow>
                (case connClose e (h2 @ [ChClose]) of
                   Some err \<Rightarrow>
                     Some (Some (Wrap err ''error closing connection to broker''),
                           m\<lparr>gwChans := map stopEntry (gwChans m)\<rparr>, h2 @ [ChClose, ConnClose])
                 | None \<Rightarrow>
                     Some (None, m\<lparr>gwChans := map stopEntry (gwChans m)\<rparr>,
                           h2 @ [ChClose, ConnClose]))))"
proof (intro conjI impI, goal_cases)
  case 1
  then have pre': "pre' = map (map_option (\<lambda>c. c\<lparr>cancelled := True\<rparr>)) (GetChannels pre)"
    and ch': "ch' = ch\<lparr>cancelled := True\<rparr>"
    by (auto simp: GatewayChannel_Close_result dest: closeChannels_None)
  have split: "GetChannels (gwChans m) = GetChannels pre @ Some ch # GetChannels post"
    using 1 by (simp add: GetChannels_def)
  have "closeChannels e (GetChannels (gwChans m)) h =
          (Some (Wrap err ''error closing stored gateway channel''),
           pre' @ Some (ch\<lparr>cancelled := True\<rparr>) # GetChannels post, h2)"
    unfolding split using 1 by (simp add: closeChannels_append ch')
  moreover have "stored (gwChans m) (pre' @ Some (ch\<lparr>cancelled := True\<rparr>) # GetChannels post) =
          map stopEntry pre @ (g, Some (ch\<lparr>cancelled := True\<rparr>)) # post"
    using 1 stored_stopped [of pre]
    by (simp add: stored_def pre' GetChannels_def zip_map_fst_snd)
  ultimately show ?case
    by (simp add: Manager_Close_def)
next
  case 2
  then have "stored (gwChans m) chs = map stopEntry (gwChans m)"
    using closeChannels_None stored_stopped by metis
  with 2 show ?case
    by (simp add: Manager_Close_def Let_def split: option.splits)
qed

theorem Manager_Close_returns_first_error_at_once_witness:
  "Manager_Close closeOnce
     (opened\<lparr>gwChans := [(''gw42'', Some (attached ''gw42'')), (''gw7'', Some (attached ''gw7''))]\<rparr>, []) =
     Some (Some ''error closing stored gateway channel: already closed'',
           opened\<lparr>gwChans := [(''gw42'', Some ((attached ''gw42'')\<lparr>cancelled := True\<rparr>)),
                                (''gw7'', Some (attached ''gw7''))]\<rparr>,
           [CtxCancel ''gw42'', OutClose ''gw42'', InClose ''gw42'',
            UpdateGatewayStatus ''gw42'' ''off'', OutClose ''gw42'']) \<and>
   Manager_Close calm
     (opened\<lparr>gwChans := [(''gw42'', Some (attached ''gw42'')), (''gw7'', Some (attached ''gw7''))]\<rparr>, []) =
     Some (None,
           opened\<lparr>gwChans := [(''gw42'', Some ((attached ''gw42'')\<lparr>cancelled := True\<rparr>)),
                                (''gw7'', Some ((attached ''gw7'')\<lparr>cancelled := True\<rparr>))]\<rparr>,
           [CtxCancel ''gw42'', OutClose ''gw42'', InClose ''gw42'',
            UpdateGatewayStatus ''gw42'' ''off'', OutClose ''gw42'',
            CtxCancel ''gw7'', OutClose ''gw7'', InClose ''gw7'',
            UpdateGatewayStatus ''gw7'' ''off'', OutClose ''gw7'',
            QueueDelete ''srv'', ChClose, ConnClose])"
proof -
  let ?m = "opened\<lparr>gwChans := [(''gw42'', Some (attached ''gw42'')), (''gw7'', Some (attached ''gw7''))]\<rparr>"
  let ?fx = "[CtxCancel ''gw42'', OutClose ''gw42'', InClose ''gw42'',
              UpdateGatewayStatus ''gw42'' ''off'', OutClose ''gw42'']"
  let ?fx' = "[CtxCancel ''gw7'', OutClose ''gw7'', InClose ''gw7'',
               UpdateGatewayStatus ''gw7'' ''off'', OutClose ''gw7'']"
  have a1: "gwChans ?m = [] @ (''gw42'', Some (attached ''gw42'')) # [(''gw7'', Some (attached ''gw7''))]"
    by simp
  have a2: "closeChannels closeOnce (GetChannels []) [] = (None, [], [])"
    by (simp add: GetChannels_def)
  have a3: "GatewayChannel_Close closeOnce (attached ''gw42'') [] =
              (Some ''already closed'', (attached ''gw42'')\<lparr>cancelled := True\<rparr>, ?fx)"
    by (simp add: run_simps)
  have b1: "closeChannels calm (GetChannels (gwChans ?m)) [] =
              (None,
               [Some ((attached ''gw42'')\<lparr>cancelled := True\<rparr>),
                Some ((attached ''gw7'')\<lparr>cancelled := True\<rparr>)],
               ?fx @ ?fx')"
    by (simp add: run_simps)
  have b2: "Ch ?m \<and> Conn ?m \<and> evQueName ?m \<noteq> []"
    by (simp add: opened_def)
  have A: "Manager_Close closeOnce (?m, []) =
        Some (Some (Wrap ''already closed'' ''error closing stored gateway channel''),
              ?m\<lparr>gwChans := map stopEntry [] @ (''gw42'', Some ((attached ''gw42'')\<lparr>cancelled := True\<rparr>))
                       # [(''gw7'', Some (attached ''gw7''))]\<rparr>,
              ?fx)"
    using Manager_Close_returns_first_error_at_once
      [where m = ?m and pre = "[]" and g = "''gw42''" and ch = "attached ''gw42''"
         and post = "[(''gw7'', Some (attached ''gw7''))]" and e = closeOnce and h = "[]"
         and pre' = "[]" and ?h1.0 = "[]" and err = "''already closed''"
         and ch' = "(attached ''gw42'')\<lparr>cancelled := True\<rparr>" and ?h2.0 = ?fx]
      a1 a2 a3
    by blast
  have B: "Manager_Close calm (?m, []) =
        Some (None, ?m\<lparr>gwChans := map stopEntry (gwChans ?m)\<rparr>,
              ?fx @ ?fx' @ [QueueDelete ''srv'', ChClose, ConnClose])"
    using Manager_Close_returns_first_error_at_once
      [where m = ?m and e = calm and h = "[]" and ?h1.0 = "?fx @ ?fx'"
         and chs = "[Some ((attached ''gw42'')\<lparr>cancelled := True\<rparr>),
                     Some ((attached ''gw7'')\<lparr>cancelled := True\<rparr>)]"]
      b1 b2
    by (simp add: calm_def opened_def)
  show ?thesis
    using A B by (simp add: Wrap_def stopEntry_def attached_def session_def opened_def)
qed

text \<open>
  C1, as stated, fails. After a Created event for \<open>gw42\<close> and a Shutdown in which every
  close succeeds, the Registry still contains the session of \<open>gw42\<close>, stopped:
  \<open>Manager.Close\<close> removes nothing. And after Created events for \<open>gw42\<close> and \<open>gw7\<close>
  and a Shutdown in which the close of \<open>gw42\<close> reports an error, the session of \<open>gw7\<close>
  is still in the Registry and still running. In both cases a Shutdown has occurred since
  the Created event.
\<close>

theorem Registry_live_after_Shutdown_counterexample:
  "loop (act calm) [Event (created ''gw42.in''), Shutdown] (opened, []) =
     Continue
       (opened\<lparr>gwChans := [(''gw42'', Some ((session ''gw42'')\<lparr>cancelled := True\<rparr>))]\<rparr>,
        [LogDebug ''RabbitMQ event'', AmqpReader ''gw42'', AmqpWriter ''gw42'', PumpStarted ''gw42'',
         CtxCancel ''gw42'', OutClose ''gw42'', InClose ''gw42'',
         UpdateGatewayStatus ''gw42'' ''off'', OutClose ''gw42'',
         QueueDelete ''srv'', ChClose, ConnClose]) \<and>
   live ''gw42'' (opened\<lparr>gwChans := [(''gw42'', Some ((session ''gw42'')\<lparr>cancelled := True\<rparr>))]\<rparr>) \<and>
   \<not> spec_live ''gw42'' (rev [Event (created ''gw42.in''), Shutdown]) \<and>
   loop (act closeOnce) [Event (created ''gw42.in''), Event (created ''gw7.in''), Shutdown]
        (opened, []) =
     Continue
       (opened\<lparr>gwChans := [(''gw42'', Some ((session ''gw42'')\<lparr>cancelled := True\<rparr>)),
                            (''gw7'', Some (session ''gw7''))]\<rparr>,
        [LogDebug ''RabbitMQ event'', AmqpReader ''gw42'', AmqpWriter ''gw42'', PumpStarted ''gw42'',
         LogDebug ''RabbitMQ event'', AmqpReader ''gw7'', AmqpWriter ''gw7'', PumpStarted ''gw7'',
         CtxCancel ''gw42'', OutClose ''gw42'', InClose ''gw42'',
         UpdateGatewayStatus ''gw42'' ''off'', OutClose ''gw42'']) \<and>
   live ''gw7''
     (opened\<lparr>gwChans := [(''gw42'', Some ((session ''gw42'')\<lparr>cancelled := True\<rparr>)),
                          (''gw7'', Some (session ''gw7''))]\<rparr>) \<and>
   running ''gw7''
     (opened\<lparr>gwChans := [(''gw42'', Some ((session ''gw42'')\<lparr>cancelled := True\<rparr>)),
                          (''gw7'', Some (session ''gw7''))]\<rparr>) \<and>
   \<not> spec_live ''gw7'' (rev [Event (created ''gw42.in''), Event (created ''gw7.in''), Shutdown])"
  by (simp add: run_simps live_def running_def)

text \<open>
  C1, amended. Start from an empty Registry and let the event loop process Created and
  Deleted events, with Shutdowns in between, without a panic. Then the Registry contains
  a live session for \<open>g\<close> if and only if the most recent actionable event for \<open>g\<close> was
  Created, whether or not a Shutdown has occurred since. That session is running if no
  Shutdown has occurred since; and when no close of a read side reports an error, it is
  running only if no Shutdown has occurred since.
\<close>

theorem Registry_tracks_lifecycle_events:
  assumes "gwChans m0 = NewGatewayChannelsMap"
      and "\<forall>a\<in>set acts. createdOrDeleted a"
      and "loop (act e) acts (m0, h0) = Continue (m, h)"
  shows "live g m = last_created g (rev acts) \<and>
         (spec_live g (rev acts) \<longrightarrow> running g m) \<and>
         ((\<forall>g' h'. outClose e g' h' = None) \<longrightarrow> running g m = spec_live g (rev acts))"
  using tracking_invariant [OF assms] by blast

theorem Registry_tracks_lifecycle_events_witness:
  "live ''gw42'' (opened\<lparr>gwChans := [(''gw42'', Some (session ''gw42''))]\<rparr>) \<and>
   running ''gw42'' (opened\<lparr>gwChans := [(''gw42'', Some (session ''gw42''))]\<rparr>) \<and>
   last_created ''gw42''
     (rev [Event (created ''gw42.in''), Shutdown, Event (deleted ''gw42.in''),
           Event (created ''gw42.in'')]) \<and>
   spec_live ''gw42''
     (rev [Event (created ''gw42.in''), Shutdown, Event (deleted ''gw42.in''),
           Event (created ''gw42.in'')])"
proof -
  have run: "loop (act calm)
          [Event (created ''gw42.in''), Shutdown, Event (deleted ''gw42.in''),
           Event (created ''gw42.in'')] (opened, []) =
        Continue (opened\<lparr>gwChans := [(''gw42'', Some (session ''gw42''))]\<rparr>,
          [LogDebug ''RabbitMQ event'', AmqpReader ''gw42'', AmqpWriter ''gw42'', PumpStarted ''gw42'',
           CtxCancel ''gw42'', OutClose ''gw42'', InClose ''gw42'',
           UpdateGatewayStatus ''gw42'' ''off'', OutClose ''gw42'',
           QueueDelete ''srv'', ChClose, ConnClose,
           LogDebug ''RabbitMQ event'', CtxCancel ''gw42'', OutClose ''gw42'', InClose ''gw42'',
           UpdateGatewayStatus ''gw42'' ''off'', OutClose ''gw42'',
           LogDebug ''RabbitMQ event'', AmqpReader ''gw42'', AmqpWriter ''gw42'', PumpStarted ''gw42''])"
    by (simp add: run_simps)
  have reg: "gwChans opened = NewGatewayChannelsMap"
    by (simp add: opened_def NewGatewayChannelsMap_def)
  have cd: "\<forall>a\<in>set [Event (created ''gw42.in''), Shutdown, Event (deleted ''gw42.in''),
           Event (created ''gw42.in'')]. createdOrDeleted a"
    by (simp add: created_def deleted_def)
  have quiet: "\<forall>g' h'. outClose calm g' h' = None"
    by (simp add: calm_def)
  show ?thesis
    using Registry_tracks_lifecycle_events [OF reg cd run, of "''gw42''"] quiet
    by (simp add: created_def actionable_def)
qed

end
